theory Spec2Isabelle
  imports Complex_Main "HOL-Library.Word"
begin

section \<open>Transaction inputs of the node: lib/primitives/input.js\<close>

text \<open>
  The development embeds the \<open>Input\<close> object of input.js. The file is the only part of
  the input layer that is present; Outpoint, Script, Witness, Coin, Address, Network, the
  buffer reader and writer, \<open>util\<close> and \<open>constants\<close> are required by it but absent.
  What the specification fixes about them (the wire layout, the null outpoint, the default
  values) is modelled below and marked as such; what it only gives as a capability
  contract (script and witness classification, the nested JSON codecs, the coin, the
  address rendering) is a field of the record \<open>env\<close> that every operation takes.
\<close>

subsection \<open>Values\<close>

type_synonym byte = "8 word"

text \<open>Everything the source raises: a failed \<open>assert\<close>, a property read on
  \<open>undefined\<close>, a read past the end of a buffer.\<close>

datatype error = AssertionError | TypeError | DecodeError

text \<open>JavaScript values as they reach \<open>fromJSON\<close> and leave \<open>getJSON\<close>. A number is a
  rational (every finite double is one); an object is its list of properties.\<close>

datatype jsval =
    JUndefined
  | JNull
  | JBool bool
  | JNum rat
  | JStr string
  | JArr "jsval list"
  | JObj "(string \<times> jsval) list"

text \<open>The truthiness test behind \<open>assert(json)\<close>.\<close>

fun truthy :: "jsval \<Rightarrow> bool" where
  "truthy JUndefined = False"
| "truthy JNull = False"
| "truthy (JBool b) = b"
| "truthy (JNum q) = (q \<noteq> 0)"
| "truthy (JStr s) = (s \<noteq> [])"
| "truthy (JArr xs) = True"
| "truthy (JObj kvs) = True"

text \<open>The property read \<open>json.name\<close> on a truthy value: the property of an object,
  \<open>undefined\<close> when the object has none of that name or the value is a primitive.\<close>

fun get_prop :: "jsval \<Rightarrow> string \<Rightarrow> jsval" where
  "get_prop (JObj kvs) k = (case map_of kvs k of None \<Rightarrow> JUndefined | Some v \<Rightarrow> v)"
| "get_prop v k = JUndefined"

text \<open>Modelled from the spec: \<open>util.isNumber\<close> (lib/utils/util.js is absent). Section
  4.5 and section 7 state what the check guarding \<open>sequence\<close> accepts: a well-formed
  unsigned integer.\<close>

fun util_isNumber :: "jsval \<Rightarrow> bool" where
  "util_isNumber (JNum q) = (0 \<le> q \<and> of_int \<lfloor>q\<rfloor> = q)"
| "util_isNumber v = False"

text \<open>The number carried by a value that passed \<open>util_isNumber\<close>.\<close>

fun the_uint :: "jsval \<Rightarrow> nat" where
  "the_uint (JNum q) = nat \<lfloor>q\<rfloor>"
| "the_uint v = 0"

text \<open>\<open>String.prototype.toLowerCase\<close> on the ASCII letters.\<close>

definition lower_char :: "char \<Rightarrow> char" where
  "lower_char c =
     (let n = (of_char c :: nat) in if 65 \<le> n \<and> n \<le> 90 then char_of (n + 32) else c)"

definition toLowerCase :: "string \<Rightarrow> string" where
  "toLowerCase s = map lower_char s"

subsection \<open>Outpoint, Script, Witness\<close>

text \<open>The data model of section 3: an outpoint is a 32-byte hash and an unsigned index,
  a script is its compiled bytes, a witness is its stack of byte items.\<close>

record Outpoint =
  hash :: "byte list"
  index :: nat

record Script =
  raw :: "byte list"

record Witness =
  items :: "byte list list"

definition NULL_HASH :: "byte list" where
  "NULL_HASH = replicate 32 0"

text \<open>Modelled from the spec: \<open>Outpoint.prototype.isNull\<close> (lib/primitives/outpoint.js
  is absent): the hash is all-zero and the index is 0xffffffff.\<close>

definition Outpoint_isNull :: "Outpoint \<Rightarrow> bool" where
  "Outpoint_isNull p = (index p = 0xffffffff \<and> hash p = NULL_HASH)"

text \<open>Modelled from the spec: the constructors \<open>new Outpoint()\<close>, \<open>new Script()\<close>
  and \<open>new Witness()\<close> of the absent files: the null outpoint, the script of no bytes,
  the witness of no items.\<close>

definition new_Outpoint :: Outpoint where
  "new_Outpoint = \<lparr>hash = NULL_HASH, index = 0xffffffff\<rparr>"

definition new_Script :: Script where
  "new_Script = \<lparr>raw = []\<rparr>"

definition new_Witness :: Witness where
  "new_Witness = \<lparr>items = []\<rparr>"

subsection \<open>Binary reader and writer\<close>

text \<open>Modelled from the spec: the fixed-width little-endian fields of section 4.4
  (lib/utils/staticwriter.js, reader.js and encoding.js are absent). \<open>le_bytes k n\<close> are
  the \<open>k\<close> low bytes of \<open>n\<close>, least significant first; \<open>le_nat\<close> reads them back.\<close>

fun le_bytes :: "nat \<Rightarrow> nat \<Rightarrow> byte list" where
  "le_bytes 0 n = []"
| "le_bytes (Suc k) n = of_nat n # le_bytes k (n div 256)"

fun le_nat :: "byte list \<Rightarrow> nat" where
  "le_nat [] = 0"
| "le_nat (b # bs) = unat b + 256 * le_nat bs"

text \<open>Modelled from the spec: the variable-width integer prefix of section 4.4. The spec
  does not give the widths; they are those of the protocol's compact size: one byte below
  0xfd, else a marker byte 0xfd, 0xfe or 0xff followed by 2, 4 or 8 little-endian bytes.\<close>

definition sizeVarint :: "nat \<Rightarrow> nat" where
  "sizeVarint n =
     (if n < 0xfd then 1 else if n \<le> 0xffff then 3 else if n \<le> 0xffffffff then 5 else 9)"

definition encVarint :: "nat \<Rightarrow> byte list" where
  "encVarint n =
     (if n < 0xfd then le_bytes 1 n
      else if n \<le> 0xffff then 0xfd # le_bytes 2 n
      else if n \<le> 0xffffffff then 0xfe # le_bytes 4 n
      else 0xff # le_bytes 8 n)"

text \<open>Modelled from the spec: the writer. \<open>new StaticWriter(size)\<close> is a buffer of
  \<open>size\<close> bytes to be filled; each write appends; \<open>render\<close> hands the buffer out when
  it has been filled exactly.\<close>

record StaticWriter =
  capacity :: nat
  written :: "byte list"

definition new_StaticWriter :: "nat \<Rightarrow> StaticWriter" where
  "new_StaticWriter sz = \<lparr>capacity = sz, written = []\<rparr>"

definition writeBytes :: "byte list \<Rightarrow> StaticWriter \<Rightarrow> StaticWriter" where
  "writeBytes bs bw = bw\<lparr>written := written bw @ bs\<rparr>"

definition writeHash :: "byte list \<Rightarrow> StaticWriter \<Rightarrow> StaticWriter" where
  "writeHash h bw = writeBytes h bw"

definition writeU32 :: "nat \<Rightarrow> StaticWriter \<Rightarrow> StaticWriter" where
  "writeU32 n bw = writeBytes (le_bytes 4 n) bw"

definition writeVarint :: "nat \<Rightarrow> StaticWriter \<Rightarrow> StaticWriter" where
  "writeVarint n bw = writeBytes (encVarint n) bw"

definition writeVarBytes :: "byte list \<Rightarrow> StaticWriter \<Rightarrow> StaticWriter" where
  "writeVarBytes bs bw = writeBytes bs (writeVarint (length bs) bw)"

definition render :: "StaticWriter \<Rightarrow> error + byte list" where
  "render bw =
     (if length (written bw) = capacity bw then Inr (written bw) else Inl AssertionError)"

text \<open>Modelled from the spec: the reader, as the bytes not yet consumed. A read of more
  bytes than remain is a decode error (section 4.4: a truncated buffer never decodes).\<close>

type_synonym BufferReader = "byte list"

definition new_BufferReader :: "byte list \<Rightarrow> BufferReader" where
  "new_BufferReader data = data"

definition readBytes :: "nat \<Rightarrow> BufferReader \<Rightarrow> error + (byte list \<times> BufferReader)" where
  "readBytes n br = (if n \<le> length br then Inr (take n br, drop n br) else Inl DecodeError)"

definition readHash :: "BufferReader \<Rightarrow> error + (byte list \<times> BufferReader)" where
  "readHash br = readBytes 32 br"

definition readUInt :: "nat \<Rightarrow> BufferReader \<Rightarrow> error + (nat \<times> BufferReader)" where
  "readUInt k br =
     (case readBytes k br of Inl e \<Rightarrow> Inl e | Inr (bs, br') \<Rightarrow> Inr (le_nat bs, br'))"

definition readU32 :: "BufferReader \<Rightarrow> error + (nat \<times> BufferReader)" where
  "readU32 br = readUInt 4 br"

definition readVarint :: "BufferReader \<Rightarrow> error + (nat \<times> BufferReader)" where
  "readVarint br =
     (case br of
        [] \<Rightarrow> Inl DecodeError
      | b # br' \<Rightarrow>
          if b = 0xff then readUInt 8 br'
          else if b = 0xfe then readUInt 4 br'
          else if b = 0xfd then readUInt 2 br'
          else Inr (unat b, br'))"

definition readVarBytes :: "BufferReader \<Rightarrow> error + (byte list \<times> BufferReader)" where
  "readVarBytes br =
     (case readVarint br of Inl e \<Rightarrow> Inl e | Inr (n, br') \<Rightarrow> readBytes n br')"

text \<open>Modelled from the spec: the binary methods of the absent Outpoint and Script:
  the outpoint is its hash then its index; a script is read from and written as its raw
  bytes, and its \<open>getVarSize\<close> is the length prefix plus the payload. A method that
  populates its object (\<open>fromReader\<close>, \<open>fromRaw\<close>) takes that object as \<open>this\<close>.\<close>

definition Outpoint_toWriter :: "Outpoint \<Rightarrow> StaticWriter \<Rightarrow> StaticWriter" where
  "Outpoint_toWriter p bw = writeU32 (index p) (writeHash (hash p) bw)"

definition Outpoint_fromReader ::
  "Outpoint \<Rightarrow> BufferReader \<Rightarrow> error + (Outpoint \<times> BufferReader)" where
  "Outpoint_fromReader this br =
     (case readHash br of
        Inl e \<Rightarrow> Inl e
      | Inr (h, br1) \<Rightarrow>
          (case readU32 br1 of
             Inl e \<Rightarrow> Inl e
           | Inr (n, br2) \<Rightarrow> Inr (this\<lparr>hash := h, index := n\<rparr>, br2)))"

definition Script_toRaw :: "Script \<Rightarrow> byte list" where
  "Script_toRaw s = raw s"

definition Script_fromRaw :: "Script \<Rightarrow> byte list \<Rightarrow> Script" where
  "Script_fromRaw this data = this\<lparr>raw := data\<rparr>"

definition Script_getVarSize :: "Script \<Rightarrow> nat" where
  "Script_getVarSize s = sizeVarint (length (raw s)) + length (raw s)"

subsection \<open>The collaborators of an Input\<close>

text \<open>
  The methods of the absent Script, Witness, Outpoint, Coin, Address and Network classes
  that input.js calls, and the table \<open>constants.scriptTypesByVal\<close>. The specification
  names them as capabilities (sections 4.2 and 6) and fixes no implementation, so they are
  parameters. A method that returns an object or nothing returns an option; a type tag is
  a number; the table is partial, as a JavaScript object is; a \<open>fromJSON\<close> takes the
  object it populates and the value it reads, and returns the object or the exception.
\<close>

record ('addr, 'net, 'coin) env =
  script_getInputType :: "Script \<Rightarrow> nat"
  script_isScripthashInput :: "Script \<Rightarrow> bool"
  script_getRedeem :: "Script \<Rightarrow> Script option"
  script_getInputAddress :: "Script \<Rightarrow> 'addr option"
  script_isScripthash :: "Script \<Rightarrow> bool"
  script_isWitnessScripthash :: "Script \<Rightarrow> bool"
  script_getType :: "Script \<Rightarrow> nat"
  script_toJSON :: "Script \<Rightarrow> jsval"
  script_fromJSON :: "Script \<Rightarrow> jsval \<Rightarrow> error + Script"
  witness_getInputType :: "Witness \<Rightarrow> nat"
  witness_isScripthashInput :: "Witness \<Rightarrow> bool"
  witness_getRedeem :: "Witness \<Rightarrow> Script option"
  witness_getInputAddress :: "Witness \<Rightarrow> 'addr option"
  witness_toJSON :: "Witness \<Rightarrow> jsval"
  witness_fromJSON :: "Witness \<Rightarrow> jsval \<Rightarrow> error + Witness"
  outpoint_toJSON :: "Outpoint \<Rightarrow> jsval"
  outpoint_fromJSON :: "Outpoint \<Rightarrow> jsval \<Rightarrow> error + Outpoint"
  coin_script :: "'coin \<Rightarrow> Script"
  coin_getType :: "'coin \<Rightarrow> string"
  coin_getAddress :: "'coin \<Rightarrow> 'addr option"
  coin_getJSON :: "'coin \<Rightarrow> 'net \<Rightarrow> bool \<Rightarrow> jsval"
  scriptTypesByVal :: "nat \<rightharpoonup> string"
  Network_get :: "'net option \<Rightarrow> 'net"
  address_toBase58 :: "'addr \<Rightarrow> 'net \<Rightarrow> string"

subsection \<open>Input\<close>

text \<open>The four properties the constructor sets. \<open>sequence\<close>, like the index of an
  outpoint, is a JavaScript number that the data model keeps an unsigned integer; that it
  fits 32 bits is stated where the codec needs it.\<close>

record Input =
  prevout :: Outpoint
  script :: Script
  sequence :: nat
  witness :: Witness

text \<open>The constructor without options.\<close>

definition new_Input :: Input where
  "new_Input =
     \<lparr>prevout = new_Outpoint, script = new_Script, sequence = 0xffffffff,
      witness = new_Witness\<rparr>"

text \<open>\<open>constants.scriptTypesByVal[type].toLowerCase()\<close>: a tag with no entry reads
  \<open>undefined\<close>, and the method call on it raises.\<close>

definition typeName :: "('addr, 'net, 'coin) env \<Rightarrow> nat \<Rightarrow> error + string" where
  "typeName env t =
     (case scriptTypesByVal env t of
        None \<Rightarrow> Inl TypeError
      | Some name \<Rightarrow> Inr (toLowerCase name))"

definition Input_isCoinbase :: "Input \<Rightarrow> bool" where
  "Input_isCoinbase i = Outpoint_isNull (prevout i)"

definition Input_isFinal :: "Input \<Rightarrow> bool" where
  "Input_isFinal i = (sequence i = 0xffffffff)"

definition Input_isRBF :: "Input \<Rightarrow> bool" where
  "Input_isRBF i = (sequence i < 0xfffffffe)"

definition Input_getType ::
  "('addr, 'net, 'coin) env \<Rightarrow> Input \<Rightarrow> 'coin option \<Rightarrow> error + string" where
  "Input_getType env i coin =
     (if Input_isCoinbase i then Inr ''coinbase''
      else case coin of
        Some c \<Rightarrow> Inr (coin_getType env c)
      | None \<Rightarrow>
          typeName env
            (if length (items (witness i)) > 0 then witness_getInputType env (witness i)
             else script_getInputType env (script i)))"

text \<open>\<open>getRedeem\<close>: \<open>prev\<close> and \<open>redeem\<close> are the two local variables; each of the
  two \<open>if\<close> statements assigns both.\<close>

definition Input_getRedeem ::
  "('addr, 'net, 'coin) env \<Rightarrow> Input \<Rightarrow> 'coin option \<Rightarrow> Script option" where
  "Input_getRedeem env i coin =
     (if Input_isCoinbase i then None
      else case coin of
        None \<Rightarrow>
          if witness_isScripthashInput env (witness i)
          then witness_getRedeem env (witness i)
          else if script_isScripthashInput env (script i)
          then script_getRedeem env (script i)
          else None
      | Some c \<Rightarrow>
          (let prev0 = Some (coin_script env c);
               redeem0 = None;
               (prev1, redeem1) =
                 (if script_isScripthash env (coin_script env c)
                  then (script_getRedeem env (script i), script_getRedeem env (script i))
                  else (prev0, redeem0));
               (prev2, redeem2) =
                 (case prev1 of
                    None \<Rightarrow> (prev1, redeem1)
                  | Some p \<Rightarrow>
                      if script_isWitnessScripthash env p
                      then (witness_getRedeem env (witness i),
                            witness_getRedeem env (witness i))
                      else (prev1, redeem1))
           in redeem2))"

definition Input_getSubtype ::
  "('addr, 'net, 'coin) env \<Rightarrow> Input \<Rightarrow> 'coin option \<Rightarrow> error + string option" where
  "Input_getSubtype env i coin =
     (if Input_isCoinbase i then Inr None
      else case Input_getRedeem env i coin of
        None \<Rightarrow> Inr None
      | Some redeem \<Rightarrow>
          (case typeName env (script_getType env redeem) of
             Inl e \<Rightarrow> Inl e
           | Inr name \<Rightarrow> Inr (Some name)))"

definition Input_getAddress ::
  "('addr, 'net, 'coin) env \<Rightarrow> Input \<Rightarrow> 'coin option \<Rightarrow> 'addr option" where
  "Input_getAddress env i coin =
     (if Input_isCoinbase i then None
      else case coin of
        Some c \<Rightarrow> coin_getAddress env c
      | None \<Rightarrow>
          if length (items (witness i)) > 0 then witness_getInputAddress env (witness i)
          else script_getInputAddress env (script i))"

text \<open>\<open>getJSON(network, coin)\<close>: the object literal, property by property. The local
  \<open>address\<close> stays \<open>undefined\<close> unless the branch without a coin finds one.\<close>

definition Input_getJSON ::
  "('addr, 'net, 'coin) env \<Rightarrow> Input \<Rightarrow> 'net option \<Rightarrow> 'coin option \<Rightarrow> jsval" where
  "Input_getJSON env i network coin =
     (let net = Network_get env network;
          address =
            (case coin of
               Some c \<Rightarrow> JUndefined
             | None \<Rightarrow>
                 (case Input_getAddress env i None of
                    None \<Rightarrow> JUndefined
                  | Some a \<Rightarrow> JStr (address_toBase58 env a net)))
      in JObj
           [(''prevout'', outpoint_toJSON env (prevout i)),
            (''script'', script_toJSON env (script i)),
            (''witness'', witness_toJSON env (witness i)),
            (''sequence'', JNum (of_nat (sequence i))),
            (''address'', address),
            (''coin'',
               (case coin of None \<Rightarrow> JUndefined | Some c \<Rightarrow> coin_getJSON env c net True))])"

text \<open>\<open>toJSON(network, coin)\<close> calls \<open>getJSON\<close> with no argument.\<close>

definition Input_toJSON ::
  "('addr, 'net, 'coin) env \<Rightarrow> Input \<Rightarrow> 'net option \<Rightarrow> 'coin option \<Rightarrow> jsval" where
  "Input_toJSON env i network coin = Input_getJSON env i None None"

text \<open>\<open>Input.prototype.fromJSON\<close>: the two asserts, then the three nested decoders in
  the order of the source, then the sequence. An exception leaves through \<open>Inl\<close>.\<close>

definition Input_fromJSON ::
  "('addr, 'net, 'coin) env \<Rightarrow> Input \<Rightarrow> jsval \<Rightarrow> error + Input" where
  "Input_fromJSON env this json =
     (if \<not> truthy json then Inl AssertionError
      else if \<not> util_isNumber (get_prop json ''sequence'') then Inl AssertionError
      else case outpoint_fromJSON env (prevout this) (get_prop json ''prevout'') of
        Inl e \<Rightarrow> Inl e
      | Inr p \<Rightarrow>
          (case script_fromJSON env (script this) (get_prop json ''script'') of
             Inl e \<Rightarrow> Inl e
           | Inr s \<Rightarrow>
               (case witness_fromJSON env (witness this) (get_prop json ''witness'') of
                  Inl e \<Rightarrow> Inl e
                | Inr w \<Rightarrow>
                    Inr (this\<lparr>prevout := p, script := s, witness := w,
                              sequence := the_uint (get_prop json ''sequence'')\<rparr>))))"

text \<open>The static \<open>Input.fromJSON\<close>.\<close>

definition Input_fromJSON_static ::
  "('addr, 'net, 'coin) env \<Rightarrow> jsval \<Rightarrow> error + Input" where
  "Input_fromJSON_static env json = Input_fromJSON env new_Input json"

definition Input_getSize :: "Input \<Rightarrow> nat" where
  "Input_getSize i = 40 + Script_getVarSize (script i)"

definition Input_toWriter :: "Input \<Rightarrow> StaticWriter \<Rightarrow> StaticWriter" where
  "Input_toWriter i bw =
     writeU32 (sequence i)
       (writeVarBytes (Script_toRaw (script i)) (Outpoint_toWriter (prevout i) bw))"

definition Input_toRaw :: "Input \<Rightarrow> error + byte list" where
  "Input_toRaw i =
     (let sz = Input_getSize i in render (Input_toWriter i (new_StaticWriter sz)))"

definition Input_fromReader :: "Input \<Rightarrow> BufferReader \<Rightarrow> error + (Input \<times> BufferReader)" where
  "Input_fromReader this br =
     (case Outpoint_fromReader (prevout this) br of
        Inl e \<Rightarrow> Inl e
      | Inr (p, br1) \<Rightarrow>
          (case readVarBytes br1 of
             Inl e \<Rightarrow> Inl e
           | Inr (data, br2) \<Rightarrow>
               (case readU32 br2 of
                  Inl e \<Rightarrow> Inl e
                | Inr (n, br3) \<Rightarrow>
                    Inr (this\<lparr>prevout := p, script := Script_fromRaw (script this) data,
                              sequence := n\<rparr>,
                         br3))))"

text \<open>\<open>Input.prototype.fromRaw\<close> returns the populated input; the reader is dropped,
  with whatever bytes it has left.\<close>

definition Input_fromRaw :: "Input \<Rightarrow> byte list \<Rightarrow> error + Input" where
  "Input_fromRaw this data =
     (case Input_fromReader this (new_BufferReader data) of
        Inl e \<Rightarrow> Inl e
      | Inr (i, br) \<Rightarrow> Inr i)"

text \<open>The static \<open>Input.fromRaw(data, enc)\<close>: a string is first decoded into a buffer
  by the platform's \<open>Buffer\<close> constructor, which is the parameter \<open>decode\<close>.\<close>

datatype raw_data = Buffer "byte list" | Text string

definition Input_fromRaw_static ::
  "(string \<Rightarrow> 'enc \<Rightarrow> byte list) \<Rightarrow> raw_data \<Rightarrow> 'enc \<Rightarrow> error + Input" where
  "Input_fromRaw_static decode data enc =
     (case data of
        Text s \<Rightarrow> Input_fromRaw new_Input (decode s enc)
      | Buffer b \<Rightarrow> Input_fromRaw new_Input b)"

subsection \<open>An instance of the collaborators\<close>

text \<open>
  A small instance of \<open>env\<close> and one input, on which the results below are evaluated.
  It is not the node's Script, Witness or Coin: a script is a script-hash output when it
  starts with 0xa9 and a witness program when it starts with 0x00, the redeem script of
  an input script is what follows its first byte, the redeem script of a witness is its
  last item, a coin is its output script, byte strings travel in JSON as arrays of
  numbers, and the outpoint's JSON carries the hash reversed.
\<close>

definition enc_bytes :: "byte list \<Rightarrow> jsval" where
  "enc_bytes bs = JArr (map (\<lambda>b. JNum (of_nat (unat b))) bs)"

fun dec_bytes :: "jsval \<Rightarrow> error + byte list" where
  "dec_bytes (JArr xs) =
     (if list_all util_isNumber xs then Inr (map (\<lambda>x. of_nat (the_uint x)) xs)
      else Inl AssertionError)"
| "dec_bytes v = Inl AssertionError"

definition example_env :: "(string, string, Script) env" where
  "example_env =
     \<lparr>script_getInputType = (\<lambda>s. if raw s = [] then 0 else 1),
      script_isScripthashInput = (\<lambda>s. raw s \<noteq> []),
      script_getRedeem = (\<lambda>s. if raw s = [] then None else Some \<lparr>raw = tl (raw s)\<rparr>),
      script_getInputAddress = (\<lambda>s. if raw s = [] then None else Some ''from-script''),
      script_isScripthash = (\<lambda>s. take 1 (raw s) = [0xa9]),
      script_isWitnessScripthash = (\<lambda>s. take 1 (raw s) = [0x00]),
      script_getType = (\<lambda>s. if take 1 (raw s) = [0x52] then 2 else 0),
      script_toJSON = (\<lambda>s. enc_bytes (raw s)),
      script_fromJSON =
        (\<lambda>this j. case dec_bytes j of Inl e \<Rightarrow> Inl e | Inr bs \<Rightarrow> Inr (this\<lparr>raw := bs\<rparr>)),
      witness_getInputType = (\<lambda>w. 2),
      witness_isScripthashInput = (\<lambda>w. length (items w) > 1),
      witness_getRedeem =
        (\<lambda>w. if items w = [] then None else Some \<lparr>raw = last (items w)\<rparr>),
      witness_getInputAddress = (\<lambda>w. Some ''from-witness''),
      witness_toJSON = (\<lambda>w. JArr (map enc_bytes (items w))),
      witness_fromJSON =
        (\<lambda>this j. case j of
               JArr xs \<Rightarrow>
                 if list_all (\<lambda>x. \<not> isl (dec_bytes x)) xs
                 then Inr (this\<lparr>items := map (\<lambda>x. projr (dec_bytes x)) xs\<rparr>)
                 else Inl AssertionError
             | _ \<Rightarrow> Inl AssertionError),
      outpoint_toJSON =
        (\<lambda>p. JObj [(''hash'', enc_bytes (rev (hash p))), (''index'', JNum (of_nat (index p)))]),
      outpoint_fromJSON =
        (\<lambda>this j. if \<not> truthy j then Inl AssertionError
             else case dec_bytes (get_prop j ''hash'') of
               Inl e \<Rightarrow> Inl e
             | Inr h \<Rightarrow>
                 if util_isNumber (get_prop j ''index'')
                 then Inr (this\<lparr>hash := rev h, index := the_uint (get_prop j ''index'')\<rparr>)
                 else Inl AssertionError),
      coin_script = (\<lambda>c. c),
      coin_getType = (\<lambda>c. ''scripthash''),
      coin_getAddress = (\<lambda>c. Some ''from-coin''),
      coin_getJSON =
        (\<lambda>c net detailed.
           JObj [(''script'', enc_bytes (raw c)), (''network'', JStr net),
                 (''detailed'', JBool detailed)]),
      scriptTypesByVal = [0 \<mapsto> ''NONSTANDARD'', 1 \<mapsto> ''SCRIPTHASH'', 2 \<mapsto> ''MULTISIG''],
      Network_get = (\<lambda>n. case n of None \<Rightarrow> ''main'' | Some x \<Rightarrow> x),
      address_toBase58 = (\<lambda>a net. net @ '':'' @ a)\<rparr>"

definition example_input :: Input where
  "example_input =
     \<lparr>prevout = \<lparr>hash = replicate 32 7, index = 1\<rparr>,
      script = \<lparr>raw = [0x22, 0x00, 0x20]\<rparr>,
      sequence = 0xfffffffe,
      witness = \<lparr>items = [[0x01], [0x52, 0x53, 0xae]]\<rparr>\<rparr>"

section \<open>Properties\<close>

subsection \<open>The binary codec\<close>

lemma le_nat_le_bytes: "n < 256 ^ k \<Longrightarrow> le_nat (le_bytes k n) = n"
proof (induction k arbitrary: n)
  case 0 then show ?case by simp
next
  case (Suc k)
  have "n div 256 < 256 ^ k" using Suc.prems by (simp add: less_mult_imp_div_less mult.commute)
  then have "le_nat (le_bytes k (n div 256)) = n div 256" by (rule Suc.IH)
  moreover have "unat (of_nat n :: byte) = n mod 256" by (simp add: unat_of_nat)
  ultimately show ?case by simp
qed

lemma length_le_bytes: "length (le_bytes k n) = k"
  by (induction k arbitrary: n) simp_all

lemma length_encVarint: "length (encVarint n) = sizeVarint n"
  by (simp add: encVarint_def sizeVarint_def length_le_bytes)

lemma readBytes_append: "readBytes (length bs) (bs @ rest) = Inr (bs, rest)"
  by (simp add: readBytes_def)

lemma readUInt_le_bytes: "n < 256 ^ k \<Longrightarrow> readUInt k (le_bytes k n @ rest) = Inr (n, rest)"
  using readBytes_append [of "le_bytes k n" rest]
  by (simp add: readUInt_def length_le_bytes le_nat_le_bytes)


lemma byte_of_small: "n < 256 \<Longrightarrow> unat (of_nat n :: byte) = n"
  by (simp add: unat_of_nat)

lemma readVarint_encVarint: 
  assumes n: "n < 2 ^ 64"
  shows "readVarint (encVarint n @ rest) = Inr (n, rest)"
proof -
  consider (a) "n < 0xfd" | (b) "\<not> n < 0xfd" "n \<le> 0xffff"
    | (c) "\<not> n < 0xfd" "\<not> n \<le> 0xffff" "n \<le> 0xffffffff"
    | (d) "\<not> n < 0xfd" "\<not> n \<le> 0xffff" "\<not> n \<le> 0xffffffff"
    by blast
  then show ?thesis
  proof cases
    case a
    then have u: "unat (of_nat n :: byte) = n" by (simp add: byte_of_small)
    have "unat (of_nat n :: byte) \<noteq> unat (0xff :: byte)"
         "unat (of_nat n :: byte) \<noteq> unat (0xfe :: byte)"
         "unat (of_nat n :: byte) \<noteq> unat (0xfd :: byte)"
      using a unfolding u by simp_all
    then have ne: "(of_nat n :: byte) \<noteq> 0xff" "(of_nat n :: byte) \<noteq> 0xfe" "(of_nat n :: byte) \<noteq> 0xfd"
      by metis+
    have "encVarint n = [of_nat n]" using a by (simp add: encVarint_def)
    then show ?thesis using ne u by (simp add: readVarint_def)
  next
    case b
    have "n < 256 ^ 2" using b by simp
    then have "readUInt 2 (le_bytes 2 n @ rest) = Inr (n, rest)" by (rule readUInt_le_bytes)
    moreover have "encVarint n = 0xfd # le_bytes 2 n" using b by (simp add: encVarint_def)
    ultimately show ?thesis by (simp add: readVarint_def)
  next
    case c
    have "n < 256 ^ 4" using c by simp
    then have "readUInt 4 (le_bytes 4 n @ rest) = Inr (n, rest)" by (rule readUInt_le_bytes)
    moreover have "encVarint n = 0xfe # le_bytes 4 n" using c by (simp add: encVarint_def)
    ultimately show ?thesis by (simp add: readVarint_def)
  next
    case d
    have "n < 256 ^ 8" using n by simp
    then have "readUInt 8 (le_bytes 8 n @ rest) = Inr (n, rest)" by (rule readUInt_le_bytes)
    moreover have "encVarint n = 0xff # le_bytes 8 n" using d by (simp add: encVarint_def)
    ultimately show ?thesis by (simp add: readVarint_def)
  qed
qed

lemma le_bytes_4:
  "le_bytes 4 n = [of_nat n, of_nat (n div 256), of_nat (n div 256 div 256),
                   of_nat (n div 256 div 256 div 256)]"
proof -
  have "le_bytes (Suc (Suc (Suc (Suc 0)))) n =
          [of_nat n, of_nat (n div 256), of_nat (n div 256 div 256),
           of_nat (n div 256 div 256 div 256)]"
    by simp
  moreover have "Suc (Suc (Suc (Suc 0))) = 4" by simp
  ultimately show ?thesis by (simp only:)
qed

lemmas example_defs =
  example_input_def example_env_def Input_isCoinbase_def Outpoint_isNull_def NULL_HASH_def

lemma written_Input_toWriter:
  "written (Input_toWriter i bw) =
     written bw @ hash (prevout i) @ le_bytes 4 (index (prevout i)) @
     encVarint (length (raw (script i))) @ raw (script i) @ le_bytes 4 (sequence i)"
  by (simp add: Input_toWriter_def Outpoint_toWriter_def writeU32_def writeVarBytes_def
      writeVarint_def writeHash_def writeBytes_def Script_toRaw_def)

lemma capacity_Input_toWriter: "capacity (Input_toWriter i bw) = capacity bw"
  by (simp add: Input_toWriter_def Outpoint_toWriter_def writeU32_def writeVarBytes_def
      writeVarint_def writeHash_def writeBytes_def)

lemma Input_toRaw_eq:
  "Input_toRaw i =
     (if length (hash (prevout i)) = 32
      then Inr (hash (prevout i) @ le_bytes 4 (index (prevout i)) @
                encVarint (length (raw (script i))) @ raw (script i) @
                le_bytes 4 (sequence i))
      else Inl AssertionError)"
  by (simp add: Input_toRaw_def render_def written_Input_toWriter capacity_Input_toWriter
      new_StaticWriter_def Input_getSize_def Script_getVarSize_def length_le_bytes
      length_encVarint)

lemma readHash_append: "length h = 32 \<Longrightarrow> readHash (h @ rest) = Inr (h, rest)"
  using readBytes_append [of h rest] by (simp add: readHash_def)

lemma readU32_le_bytes: "n < 2 ^ 32 \<Longrightarrow> readU32 (le_bytes 4 n @ rest) = Inr (n, rest)"
  using readUInt_le_bytes [of n 4 rest] by (simp add: readU32_def)

lemma Outpoint_fromReader_append:
  "length (hash p) = 32 \<Longrightarrow> index p < 2 ^ 32 \<Longrightarrow>
   Outpoint_fromReader this (hash p @ le_bytes 4 (index p) @ rest) = Inr (p, rest)"
  by (simp add: Outpoint_fromReader_def readHash_append readU32_le_bytes)

lemma readVarBytes_append:
  "length bs < 2 ^ 64 \<Longrightarrow> readVarBytes (encVarint (length bs) @ bs @ rest) = Inr (bs, rest)"
  by (simp add: readVarBytes_def readVarint_encVarint readBytes_append)

lemma Input_fromReader_layout:
  assumes "length (hash (prevout i)) = 32" and "index (prevout i) < 2 ^ 32"
    and "sequence i < 2 ^ 32" and "length (raw (script i)) < 2 ^ 64"
  shows "Input_fromReader this
           (hash (prevout i) @ le_bytes 4 (index (prevout i)) @
            encVarint (length (raw (script i))) @ raw (script i) @
            le_bytes 4 (sequence i) @ rest)
         = Inr (this\<lparr>prevout := prevout i, script := script i, sequence := sequence i\<rparr>, rest)"
  using assms
  by (simp add: Input_fromReader_def Outpoint_fromReader_append readVarBytes_append
      readU32_le_bytes Script_fromRaw_def)

subsection \<open>The claims\<close>

text \<open>
  Claim C4. \<open>isFinal\<close> holds exactly when the sequence is 0xffffffff, \<open>isRBF\<close> exactly
  when it is below 0xfffffffe, and an input with sequence 0xfffffffe is neither.
\<close>

theorem Input_sequence_flags:
  "(Input_isFinal i \<longleftrightarrow> sequence i = 0xffffffff)
   \<and> (Input_isRBF i \<longleftrightarrow> sequence i < 0xfffffffe)
   \<and> \<not> Input_isFinal (i\<lparr>sequence := 0xfffffffe\<rparr>)
   \<and> \<not> Input_isRBF (i\<lparr>sequence := 0xfffffffe\<rparr>)"
  by (simp add: Input_isFinal_def Input_isRBF_def)

theorem Input_sequence_flags_witness:
  "Input_isFinal new_Input \<and> \<not> Input_isRBF new_Input
   \<and> \<not> Input_isFinal example_input \<and> \<not> Input_isRBF example_input
   \<and> \<not> Input_isFinal (example_input\<lparr>sequence := 0\<rparr>)
   \<and> Input_isRBF (example_input\<lparr>sequence := 0\<rparr>)"
  using Input_sequence_flags [of new_Input] Input_sequence_flags [of example_input]
    Input_sequence_flags [of "example_input\<lparr>sequence := 0\<rparr>"]
  by (simp add: new_Input_def example_input_def)

text \<open>
  Claim C3. \<open>isCoinbase\<close> is \<open>isNull\<close> of the prevout, and on a coinbase input
  \<open>getType\<close> is the tag coinbase while \<open>getRedeem\<close>, \<open>getSubtype\<close> and \<open>getAddress\<close>
  return nothing, whatever the script, the witness, the coin argument and the
  collaborators are.
\<close>

theorem Input_coinbase_short_circuit:
  "Input_isCoinbase i = Outpoint_isNull (prevout i)
   \<and> (Input_isCoinbase i \<longrightarrow>
        Input_getType env i coin = Inr ''coinbase''
      \<and> Input_getRedeem env i coin = None
      \<and> Input_getSubtype env i coin = Inr None
      \<and> Input_getAddress env i coin = None)"
  by (simp add: Input_getType_def Input_getRedeem_def Input_getSubtype_def
      Input_getAddress_def Input_isCoinbase_def)

theorem Input_coinbase_short_circuit_witness:
  "Input_isCoinbase (example_input\<lparr>prevout := new_Outpoint\<rparr>)
   \<and> Input_getType example_env (example_input\<lparr>prevout := new_Outpoint\<rparr>)
        (Some \<lparr>raw = [0xa9, 0x14]\<rparr>) = Inr ''coinbase''
   \<and> Input_getRedeem example_env (example_input\<lparr>prevout := new_Outpoint\<rparr>)
        (Some \<lparr>raw = [0xa9, 0x14]\<rparr>) = None
   \<and> Input_getSubtype example_env (example_input\<lparr>prevout := new_Outpoint\<rparr>)
        (Some \<lparr>raw = [0xa9, 0x14]\<rparr>) = Inr None
   \<and> Input_getAddress example_env (example_input\<lparr>prevout := new_Outpoint\<rparr>)
        (Some \<lparr>raw = [0xa9, 0x14]\<rparr>) = None"
proof -
  have h: "Input_isCoinbase (example_input\<lparr>prevout := new_Outpoint\<rparr>)"
    by (simp add: Input_isCoinbase_def Outpoint_isNull_def new_Outpoint_def)
  from Input_coinbase_short_circuit
         [of "example_input\<lparr>prevout := new_Outpoint\<rparr>" example_env "Some \<lparr>raw = [0xa9, 0x14]\<rparr>"] h
  show ?thesis by blast
qed

text \<open>
  Claim C2, as the code has it. For a non-coinbase input given a coin whose output script
  is a script-hash, with the input script resolving to a first-level redeem script
  \<open>r1\<close>: when \<open>r1\<close> is a witness-script-hash, \<open>getRedeem\<close> returns what the
  witness's \<open>getRedeem\<close> returns, the deeper script when the witness resolves one and
  nothing when it does not; when \<open>r1\<close> is not a witness-script-hash, it returns \<open>r1\<close>.
\<close>

theorem Input_getRedeem_nested:
  assumes "\<not> Input_isCoinbase i"
    and "script_isScripthash env (coin_script env c)"
    and "script_getRedeem env (script i) = Some r1"
  shows "(script_isWitnessScripthash env r1
            \<longrightarrow> Input_getRedeem env i (Some c) = witness_getRedeem env (witness i))
       \<and> (\<not> script_isWitnessScripthash env r1
            \<longrightarrow> Input_getRedeem env i (Some c) = Some r1)"
  using assms by (simp add: Input_getRedeem_def)

theorem Input_getRedeem_nested_witness:
  "\<not> Input_isCoinbase example_input
   \<and> script_isScripthash example_env (coin_script example_env \<lparr>raw = [0xa9, 0x14]\<rparr>)
   \<and> script_getRedeem example_env (script example_input) = Some \<lparr>raw = [0x00, 0x20]\<rparr>
   \<and> script_isWitnessScripthash example_env \<lparr>raw = [0x00, 0x20]\<rparr>
   \<and> witness_getRedeem example_env (witness example_input)
       = Some \<lparr>raw = [0x52, 0x53, 0xae]\<rparr>
   \<and> Input_getRedeem example_env example_input (Some \<lparr>raw = [0xa9, 0x14]\<rparr>)
       = Some \<lparr>raw = [0x52, 0x53, 0xae]\<rparr>
   \<and> \<not> script_isWitnessScripthash example_env \<lparr>raw = [0x51]\<rparr>
   \<and> Input_getRedeem example_env (example_input\<lparr>script := \<lparr>raw = [0x01, 0x51]\<rparr>\<rparr>)
        (Some \<lparr>raw = [0xa9, 0x14]\<rparr>)
       = Some \<lparr>raw = [0x51]\<rparr>"
proof -
  have nc: "\<not> Input_isCoinbase example_input"
    "\<not> Input_isCoinbase (example_input\<lparr>script := \<lparr>raw = [0x01, 0x51]\<rparr>\<rparr>)"
    by (simp_all add: example_defs)
  have sh: "script_isScripthash example_env (coin_script example_env \<lparr>raw = [0xa9, 0x14]\<rparr>)"
    by (simp add: example_env_def)
  have r1: "script_getRedeem example_env (script example_input) = Some \<lparr>raw = [0x00, 0x20]\<rparr>"
    "script_getRedeem example_env (script (example_input\<lparr>script := \<lparr>raw = [0x01, 0x51]\<rparr>\<rparr>))
       = Some \<lparr>raw = [0x51]\<rparr>"
    by (simp_all add: example_defs)
  have w: "script_isWitnessScripthash example_env \<lparr>raw = [0x00, 0x20]\<rparr>"
    "witness_getRedeem example_env (witness example_input)
       = Some \<lparr>raw = [0x52, 0x53, 0xae]\<rparr>"
    "\<not> script_isWitnessScripthash example_env \<lparr>raw = [0x51]\<rparr>"
    by (simp_all add: example_defs)
  have w': "witness_getRedeem example_env
              (witness (example_input\<lparr>script := \<lparr>raw = [0x01, 0x51]\<rparr>\<rparr>))
            = Some \<lparr>raw = [0x52, 0x53, 0xae]\<rparr>"
    by (simp add: example_defs)
  from Input_getRedeem_nested [OF nc(1) sh r1(1)] w
  have a: "Input_getRedeem example_env example_input (Some \<lparr>raw = [0xa9, 0x14]\<rparr>)
             = Some \<lparr>raw = [0x52, 0x53, 0xae]\<rparr>"
    by simp
  from Input_getRedeem_nested [OF nc(2) sh r1(2)] w(3)
  have b: "Input_getRedeem example_env (example_input\<lparr>script := \<lparr>raw = [0x01, 0x51]\<rparr>\<rparr>)
             (Some \<lparr>raw = [0xa9, 0x14]\<rparr>) = Some \<lparr>raw = [0x51]\<rparr>"
    by simp
  from nc sh r1 w a b show ?thesis by blast
qed

text \<open>
  Where the claim's wording and the code part: the coin is a script-hash, the input script
  resolves to a witness-script-hash, and the witness has no item, so that the first-level
  script is the deepest one that resolved. The second assignment of \<open>getRedeem\<close> still
  runs, and the method returns nothing rather than that script.
\<close>

theorem Input_getRedeem_nested_counterexample:
  "\<not> Input_isCoinbase (example_input\<lparr>witness := new_Witness\<rparr>)
   \<and> script_isScripthash example_env (coin_script example_env \<lparr>raw = [0xa9, 0x14]\<rparr>)
   \<and> script_getRedeem example_env (script (example_input\<lparr>witness := new_Witness\<rparr>))
       = Some \<lparr>raw = [0x00, 0x20]\<rparr>
   \<and> script_isWitnessScripthash example_env \<lparr>raw = [0x00, 0x20]\<rparr>
   \<and> witness_getRedeem example_env (witness (example_input\<lparr>witness := new_Witness\<rparr>))
       = None
   \<and> Input_getRedeem example_env (example_input\<lparr>witness := new_Witness\<rparr>)
        (Some \<lparr>raw = [0xa9, 0x14]\<rparr>) = None
   \<and> Input_getRedeem example_env (example_input\<lparr>witness := new_Witness\<rparr>)
        (Some \<lparr>raw = [0xa9, 0x14]\<rparr>) \<noteq> Some \<lparr>raw = [0x00, 0x20]\<rparr>"
  by (simp add: Input_getRedeem_def example_defs new_Witness_def)

text \<open>
  Claim C5. Without a coin, a non-coinbase input takes its type from the witness when the
  witness has items and from the script otherwise, and maps the tag through the name
  table, lower-cased; its address comes from the witness when the witness has items and
  from the script otherwise.
\<close>

theorem Input_guessing_mode:
  assumes "\<not> Input_isCoinbase i"
  shows "Input_getType env i None =
           typeName env
             (if items (witness i) \<noteq> [] then witness_getInputType env (witness i)
              else script_getInputType env (script i))
       \<and> typeName env t = (case scriptTypesByVal env t of
                              None \<Rightarrow> Inl TypeError
                            | Some name \<Rightarrow> Inr (toLowerCase name))
       \<and> Input_getAddress env i None =
           (if items (witness i) \<noteq> [] then witness_getInputAddress env (witness i)
            else script_getInputAddress env (script i))"
  using assms by (simp add: Input_getType_def Input_getAddress_def typeName_def)

theorem Input_guessing_mode_witness:
  "\<not> Input_isCoinbase example_input
   \<and> Input_getType example_env example_input None = Inr ''multisig''
   \<and> Input_getAddress example_env example_input None = Some ''from-witness''
   \<and> Input_getType example_env (example_input\<lparr>witness := new_Witness\<rparr>) None = Inr ''scripthash''
   \<and> Input_getAddress example_env (example_input\<lparr>witness := new_Witness\<rparr>) None
       = Some ''from-script''"
proof -
  have nc: "\<not> Input_isCoinbase example_input"
    "\<not> Input_isCoinbase (example_input\<lparr>witness := new_Witness\<rparr>)"
    by (simp_all add: example_defs)
  have lc: "toLowerCase ''MULTISIG'' = ''multisig''" "toLowerCase ''SCRIPTHASH'' = ''scripthash''"
    by code_simp+
  from Input_guessing_mode [OF nc(1), of example_env 2]
       Input_guessing_mode [OF nc(2), of example_env 1] nc lc
  show ?thesis
    by (simp add: example_env_def example_input_def new_Witness_def)
qed

text \<open>
  Claim C1. An input whose outpoint hash has 32 bytes, whose index and sequence fit 32
  bits and whose script is shorter than 2^64 bytes is encoded by \<open>toRaw\<close> as the hash,
  the little-endian index, the length-prefixed script and the little-endian sequence, in
  that order; the witness has no part in the encoding; and \<open>Input.fromRaw\<close> on that
  buffer returns an input with the same prevout, script and sequence, its witness the
  empty one of the constructor. The null outpoint is not excluded: the codec treats a
  coinbase input like any other.
\<close>

theorem Input_binary_roundtrip:
  assumes "length (hash (prevout i)) = 32" and "index (prevout i) < 2 ^ 32"
    and "sequence i < 2 ^ 32" and "length (raw (script i)) < 2 ^ 64"
  shows "Input_toRaw i =
           Inr (hash (prevout i) @ le_bytes 4 (index (prevout i)) @
                encVarint (length (raw (script i))) @ raw (script i) @
                le_bytes 4 (sequence i))
       \<and> Input_toRaw (i\<lparr>witness := w\<rparr>) = Input_toRaw i
       \<and> (\<exists>bs. Input_toRaw i = Inr bs \<and>
            Input_fromRaw_static decode (Buffer bs) enc = Inr (i\<lparr>witness := new_Witness\<rparr>))"
proof -
  let ?bs = "hash (prevout i) @ le_bytes 4 (index (prevout i)) @
             encVarint (length (raw (script i))) @ raw (script i) @ le_bytes 4 (sequence i)"
  have enc: "Input_toRaw i = Inr ?bs"
    using assms(1) by (simp add: Input_toRaw_eq)
  have indep: "Input_toRaw (i\<lparr>witness := w\<rparr>) = Input_toRaw i"
    by (simp add: Input_toRaw_eq)
  have "Input_fromReader new_Input (?bs @ [])
          = Inr (new_Input\<lparr>prevout := prevout i, script := script i, sequence := sequence i\<rparr>, [])"
    using Input_fromReader_layout [OF assms, of new_Input "[]"] by simp
  then have "Input_fromRaw new_Input ?bs
          = Inr (new_Input\<lparr>prevout := prevout i, script := script i, sequence := sequence i\<rparr>)"
    by (simp add: Input_fromRaw_def new_BufferReader_def)
  moreover have "new_Input\<lparr>prevout := prevout i, script := script i, sequence := sequence i\<rparr>
          = i\<lparr>witness := new_Witness\<rparr>"
    by (simp add: new_Input_def)
  ultimately have dec: "Input_fromRaw_static decode (Buffer ?bs) enc = Inr (i\<lparr>witness := new_Witness\<rparr>)"
    by (simp add: Input_fromRaw_static_def)
  from enc indep dec show ?thesis by blast
qed

theorem Input_binary_roundtrip_witness:
  "length (hash (prevout example_input)) = 32
   \<and> index (prevout example_input) < 2 ^ 32
   \<and> sequence example_input < 2 ^ 32
   \<and> length (raw (script example_input)) < 2 ^ 64
   \<and> Input_toRaw example_input =
       Inr (replicate 32 7 @ [1, 0, 0, 0, 3, 0x22, 0x00, 0x20, 0xfe, 0xff, 0xff, 0xff])
   \<and> Input_fromRaw_static (\<lambda>s e. []) 
        (Buffer (replicate 32 7 @ [1, 0, 0, 0, 3, 0x22, 0x00, 0x20, 0xfe, 0xff, 0xff, 0xff])) ()
       = Inr (example_input\<lparr>witness := new_Witness\<rparr>)"
proof -
  have h: "length (hash (prevout example_input)) = 32" "index (prevout example_input) < 2 ^ 32"
    "sequence example_input < 2 ^ 32" "length (raw (script example_input)) < 2 ^ 64"
    by (simp_all add: example_input_def)
  have bs: "hash (prevout example_input) @ le_bytes 4 (index (prevout example_input)) @
        encVarint (length (raw (script example_input))) @ raw (script example_input) @
        le_bytes 4 (sequence example_input)
      = replicate 32 7 @ [1, 0, 0, 0, 3, 0x22, 0x00, 0x20, 0xfe, 0xff, 0xff, 0xff]"
    by (simp add: example_input_def le_bytes_4 encVarint_def)
  from Input_binary_roundtrip [OF h, of new_Witness "\<lambda>s e. []" "()"]
  have "Input_toRaw example_input =
          Inr (replicate 32 7 @ [1, 0, 0, 0, 3, 0x22, 0x00, 0x20, 0xfe, 0xff, 0xff, 0xff])"
    and "\<exists>bs. Input_toRaw example_input = Inr bs \<and>
          Input_fromRaw_static (\<lambda>s e. []) (Buffer bs) ()
            = Inr (example_input\<lparr>witness := new_Witness\<rparr>)"
    unfolding bs by blast+
  with h show ?thesis by auto
qed

text \<open>
  Claim C6. \<open>getSize\<close> is 40 plus the length prefix and the payload of the script, every
  buffer \<open>toRaw\<close> returns has exactly that many bytes, and \<open>toRaw\<close> does return one for
  an input whose outpoint hash has its 32 bytes.
\<close>

theorem Input_getSize_exact:
  "Input_getSize i = 40 + (sizeVarint (length (raw (script i))) + length (raw (script i)))
   \<and> (\<forall>bs. Input_toRaw i = Inr bs \<longrightarrow> length bs = Input_getSize i)
   \<and> (length (hash (prevout i)) = 32 \<longrightarrow> (\<exists>bs. Input_toRaw i = Inr bs))"
  by (simp add: Input_toRaw_eq Input_getSize_def Script_getVarSize_def length_le_bytes
      length_encVarint)

theorem Input_getSize_exact_witness:
  "length (hash (prevout example_input)) = 32
   \<and> Input_getSize example_input = 44
   \<and> (\<exists>bs. Input_toRaw example_input = Inr bs \<and> length bs = 44)"
proof -
  have h: "length (hash (prevout example_input)) = 32" by (simp add: example_input_def)
  have sz: "Input_getSize example_input = 44"
    by (simp add: Input_getSize_def Script_getVarSize_def sizeVarint_def example_input_def)
  from Input_getSize_exact [of example_input] h sz show ?thesis by auto
qed

text \<open>
  Claim C7. Where the JSON codecs of the outpoint, the script and the witness each
  decode, into a fresh object, what they encoded of the input's own field,
  \<open>Input.fromJSON\<close> on \<open>toJSON\<close> of an input returns that input: prevout, script,
  witness and sequence are restored, whatever the arguments of \<open>toJSON\<close>.
\<close>

theorem Input_JSON_roundtrip:
  assumes "outpoint_fromJSON env new_Outpoint (outpoint_toJSON env (prevout i))
             = Inr (prevout i)"
    and "script_fromJSON env new_Script (script_toJSON env (script i)) = Inr (script i)"
    and "witness_fromJSON env new_Witness (witness_toJSON env (witness i)) = Inr (witness i)"
  shows "Input_fromJSON_static env (Input_toJSON env i n c) = Inr i"
  using assms
  by (simp add: Input_fromJSON_static_def Input_fromJSON_def Input_toJSON_def
      Input_getJSON_def Let_def new_Input_def)

theorem Input_JSON_roundtrip_witness:
  "outpoint_fromJSON example_env new_Outpoint
       (outpoint_toJSON example_env (prevout example_input))
     = Inr (prevout example_input)
   \<and> script_fromJSON example_env new_Script
       (script_toJSON example_env (script example_input))
     = Inr (script example_input)
   \<and> witness_fromJSON example_env new_Witness
       (witness_toJSON example_env (witness example_input))
     = Inr (witness example_input)
   \<and> Input_fromJSON_static example_env (Input_toJSON example_env example_input (Some ''test'') (Some \<lparr>raw = [0xa9]\<rparr>))
     = Inr example_input"
proof -
  have h: "outpoint_fromJSON example_env new_Outpoint
         (outpoint_toJSON example_env (prevout example_input))
       = Inr (prevout example_input)"
    "script_fromJSON example_env new_Script
         (script_toJSON example_env (script example_input))
       = Inr (script example_input)"
    "witness_fromJSON example_env new_Witness
         (witness_toJSON example_env (witness example_input))
       = Inr (witness example_input)"
    by (simp_all add: example_env_def example_input_def enc_bytes_def list_all_iff
        new_Outpoint_def new_Script_def new_Witness_def)
  from Input_JSON_roundtrip [OF h] h show ?thesis by blast
qed

text \<open>
  Claim C9. In the object \<open>getJSON(network, coin)\<close> returns, \<open>address\<close> is undefined
  when a coin is supplied and otherwise the base58 rendering, for \<open>Network.get(network)\<close>,
  of \<open>getAddress()\<close>, undefined when there is no address; \<open>coin\<close> is undefined without a
  coin and otherwise \<open>coin.getJSON(network, true)\<close>.
\<close>

theorem Input_getJSON_address_coin:
  "get_prop (Input_getJSON env i network coin) ''address'' =
     (case coin of
        Some c \<Rightarrow> JUndefined
      | None \<Rightarrow>
          (case Input_getAddress env i None of
             None \<Rightarrow> JUndefined
           | Some a \<Rightarrow> JStr (address_toBase58 env a (Network_get env network))))
   \<and> get_prop (Input_getJSON env i network coin) ''coin'' =
     (case coin of
        None \<Rightarrow> JUndefined
      | Some c \<Rightarrow> coin_getJSON env c (Network_get env network) True)"
  by (simp add: Input_getJSON_def Let_def)

theorem Input_getJSON_address_coin_witness:
  "get_prop (Input_getJSON example_env example_input (Some ''test'') None) ''address''
     = JStr ''test:from-witness''
   \<and> get_prop (Input_getJSON example_env example_input (Some ''test'') None) ''coin''
     = JUndefined
   \<and> get_prop (Input_getJSON example_env example_input (Some ''test'')
         (Some \<lparr>raw = [0xa9]\<rparr>)) ''address''
     = JUndefined
   \<and> get_prop (Input_getJSON example_env example_input (Some ''test'')
         (Some \<lparr>raw = [0xa9]\<rparr>)) ''coin''
     = JObj [(''script'', JArr [JNum 169]), (''network'', JStr ''test''),
             (''detailed'', JBool True)]
   \<and> get_prop (Input_getJSON example_env (example_input\<lparr>prevout := new_Outpoint\<rparr>)
         (Some ''test'') None) ''address''
     = JUndefined"
proof -
  have nc: "\<not> Input_isCoinbase example_input"
    "Input_isCoinbase (example_input\<lparr>prevout := new_Outpoint\<rparr>)"
    by (simp_all add: example_defs new_Outpoint_def)
  have a: "Input_getAddress example_env example_input None = Some ''from-witness''"
    "Input_getAddress example_env (example_input\<lparr>prevout := new_Outpoint\<rparr>) None = None"
    using nc by (simp_all add: Input_getAddress_def example_env_def example_input_def)
  have e: "Network_get example_env (Some ''test'') = ''test''"
    "address_toBase58 example_env ''from-witness'' ''test'' = ''test:from-witness''"
    "coin_getJSON example_env \<lparr>raw = [0xa9]\<rparr> ''test'' True
       = JObj [(''script'', JArr [JNum 169]), (''network'', JStr ''test''),
               (''detailed'', JBool True)]"
    by (simp_all add: example_env_def enc_bytes_def)
  from Input_getJSON_address_coin [of example_env example_input "Some ''test''" None]
       Input_getJSON_address_coin
         [of example_env example_input "Some ''test''" "Some \<lparr>raw = [0xa9]\<rparr>"]
       Input_getJSON_address_coin
         [of example_env "example_input\<lparr>prevout := new_Outpoint\<rparr>" "Some ''test''" None]
  show ?thesis by (simp add: a e)
qed

text \<open>
  Claim C10. \<open>toJSON(n, c)\<close> is \<open>getJSON()\<close> whatever \<open>n\<close> and \<open>c\<close> are: its \<open>coin\<close>
  is undefined and its address, when there is one, is rendered for the network that
  \<open>Network.get\<close> gives for no argument.
\<close>

theorem Input_toJSON_ignores_arguments:
  "Input_toJSON env i n c = Input_getJSON env i None None
   \<and> get_prop (Input_toJSON env i n c) ''coin'' = JUndefined
   \<and> get_prop (Input_toJSON env i n c) ''address'' =
       (case Input_getAddress env i None of
          None \<Rightarrow> JUndefined
        | Some a \<Rightarrow> JStr (address_toBase58 env a (Network_get env None)))"
  by (simp add: Input_toJSON_def Input_getJSON_def Let_def)

theorem Input_toJSON_ignores_arguments_witness:
  "Input_toJSON example_env example_input (Some ''test'') (Some \<lparr>raw = [0xa9]\<rparr>)
     = Input_getJSON example_env example_input None None
   \<and> get_prop (Input_toJSON example_env example_input (Some ''test'')
         (Some \<lparr>raw = [0xa9]\<rparr>)) ''coin''
     = JUndefined
   \<and> get_prop (Input_toJSON example_env example_input (Some ''test'')
         (Some \<lparr>raw = [0xa9]\<rparr>)) ''address''
     = JStr ''main:from-witness''"
proof -
  have nc: "\<not> Input_isCoinbase example_input"
    by (simp add: example_defs)
  have a: "Input_getAddress example_env example_input None = Some ''from-witness''"
    using nc by (simp add: Input_getAddress_def example_env_def example_input_def)
  have e: "address_toBase58 example_env ''from-witness'' (Network_get example_env None)
             = ''main:from-witness''"
    by (simp add: example_env_def)
  note t = Input_toJSON_ignores_arguments
             [of example_env example_input "Some ''test''" "Some \<lparr>raw = [0xa9]\<rparr>"]
  from t have same: "Input_toJSON example_env example_input (Some ''test'')
        (Some \<lparr>raw = [0xa9]\<rparr>) = Input_getJSON example_env example_input None None"
    by blast
  from t have coin: "get_prop (Input_toJSON example_env example_input (Some ''test'')
        (Some \<lparr>raw = [0xa9]\<rparr>)) ''coin'' = JUndefined"
    by blast
  from t have "get_prop (Input_toJSON example_env example_input (Some ''test'')
        (Some \<lparr>raw = [0xa9]\<rparr>)) ''address''
      = (case Input_getAddress example_env example_input None of
           None \<Rightarrow> JUndefined
         | Some a \<Rightarrow> JStr (address_toBase58 example_env a (Network_get example_env None)))"
    by blast
  then have addr: "get_prop (Input_toJSON example_env example_input (Some ''test'')
        (Some \<lparr>raw = [0xa9]\<rparr>)) ''address'' = JStr ''main:from-witness''"
    by (simp add: a e)
  from same coin addr show ?thesis by blast
qed

end
